theory Spec2Isabelle
  imports Main "HOL-Library.Sublist"
begin

section \<open>Strings\<close>

text \<open>
  Python strings are modelled as \<^typ>\<open>string\<close>; a character is a code point below 256.
  The backslash and the newline cannot be typed inside a literal, so they get names.
\<close>

abbreviation BSL :: char where "BSL \<equiv> CHR 0x5C"
abbreviation NL :: char where "NL \<equiv> CHR 0x0A"
abbreviation SLASH :: char where "SLASH \<equiv> CHR ''/''"

text \<open>\<^verbatim>\<open>needle in haystack\<close> on strings: the needle occurs as a contiguous block.\<close>

fun starts_with :: "string \<Rightarrow> string \<Rightarrow> bool" where
  "starts_with s [] = True"
| "starts_with [] (c # cs) = False"
| "starts_with (x # xs) (c # cs) = (x = c \<and> starts_with xs cs)"

fun str_in :: "string \<Rightarrow> string \<Rightarrow> bool" where
  "str_in needle [] = (needle = [])"
| "str_in needle (x # xs) = (starts_with (x # xs) needle \<or> str_in needle xs)"

text \<open>
  \<^verbatim>\<open>str.strip()\<close> removes leading and trailing whitespace. Below 256 Python's whitespace
  is 0x09-0x0D, 0x1C-0x20, 0x85 and 0xA0.
\<close>

definition py_isspace :: "char \<Rightarrow> bool" where
  "py_isspace c =
     (let n = (of_char c :: nat)
      in (9 \<le> n \<and> n \<le> 13) \<or> (28 \<le> n \<and> n \<le> 32) \<or> n = 133 \<or> n = 160)"

definition strip :: "string \<Rightarrow> string" where
  "strip s = rev (dropWhile py_isspace (rev (dropWhile py_isspace s)))"

section \<open>update_fmp_project_location.py: split_path\<close>

datatype filepath_type = Windows | Linux | Unknown

definition is_ascii_letter :: "char \<Rightarrow> bool" where
  "is_ascii_letter c =
     (let n = (of_char c :: nat) in (65 \<le> n \<and> n \<le> 90) \<or> (97 \<le> n \<and> n \<le> 122))"

text \<open>
  The tail \<^verbatim>\<open>(.+)$\<close> of \<^verbatim>\<open>windows_pattern\<close>: at least one character other than a
  newline, up to the end of the string or up to one final newline (\<^verbatim>\<open>.\<close> does not match
  a newline, \<^verbatim>\<open>$\<close> also matches just before a newline that ends the string).
\<close>

definition dot_plus_end :: "string \<Rightarrow> bool" where
  "dot_plus_end s =
     (takeWhile (\<lambda>c. c \<noteq> NL) s \<noteq> [] \<and>
      (dropWhile (\<lambda>c. c \<noteq> NL) s = [] \<or> dropWhile (\<lambda>c. c \<noteq> NL) s = [NL]))"

text \<open>\<^verbatim>\<open>re.match(r"^[A-Za-z]:\\(.+)$", filepath)\<close>\<close>

fun windows_pattern :: "string \<Rightarrow> bool" where
  "windows_pattern (d # c # b # rest) =
     (is_ascii_letter d \<and> c = CHR '':'' \<and> b = BSL \<and> dot_plus_end rest)"
| "windows_pattern s = False"

text \<open>
  The body \<^verbatim>\<open>([^/]+/)*[^/]+$\<close> of \<^verbatim>\<open>linux_pattern\<close>: segments separated by single
  slashes, none of them empty, the last one included. The flag says whether the segment
  being read has a character yet. \<^verbatim>\<open>[^/]\<close> matches a newline, so a match that stops
  before a final newline extends to the end of the string.
\<close>

fun linux_segments :: "bool \<Rightarrow> string \<Rightarrow> bool" where
  "linux_segments started [] = started"
| "linux_segments started (c # cs) =
     (if c = SLASH then started \<and> linux_segments False cs else linux_segments True cs)"

text \<open>\<^verbatim>\<open>re.match(r"^/([^/]+/)*[^/]+$", filepath)\<close>\<close>

fun linux_pattern :: "string \<Rightarrow> bool" where
  "linux_pattern [] = False"
| "linux_pattern (c # cs) = (c = SLASH \<and> linux_segments False cs)"

definition detect_filepath_type :: "string \<Rightarrow> filepath_type" where
  "detect_filepath_type filepath =
     (if windows_pattern filepath then Windows
      else if linux_pattern filepath then Linux
      else Unknown)"

text \<open>
  The \<^verbatim>\<open>for char in filepath\<close> loop of \<^verbatim>\<open>split_windows_path\<close>, on the pair
  \<^verbatim>\<open>(parts, curr_part)\<close>.
\<close>

fun windows_chars :: "string list \<Rightarrow> string \<Rightarrow> string \<Rightarrow> string list \<times> string" where
  "windows_chars parts curr_part [] = (parts, curr_part)"
| "windows_chars parts curr_part (c # cs) =
     (if c = BSL then
        (if curr_part \<noteq> [] then windows_chars (parts @ [curr_part]) [] cs
         else windows_chars parts curr_part cs)
      else windows_chars parts (curr_part @ [c]) cs)"

definition split_windows_path :: "string \<Rightarrow> string list" where
  "split_windows_path filepath =
     (let (parts0, rest, is_absolute) =
            (if starts_with filepath [BSL, BSL] then ([take 2 filepath], drop 2 filepath, False)
             else if 2 \<le> length filepath \<and> filepath ! 1 = CHR '':''
               then ([take 2 filepath], drop 2 filepath, True)
             else ([], filepath, False));
          (parts1, curr_part) = windows_chars parts0 [] rest;
          parts2 = (if curr_part \<noteq> [] then parts1 @ [curr_part] else parts1)
      in if \<not> is_absolute \<and> parts2 = [] then parts2 @ [curr_part] else parts2)"

text \<open>
  \<^verbatim>\<open>os.path.split\<close> of the standard library, in its POSIX version (the docstring of
  \<^verbatim>\<open>split_path\<close> says the function is built for Linux systems): the tail is what follows
  the last slash, the head what precedes it, with its trailing slashes removed unless it
  consists of slashes only.
\<close>

definition posix_split :: "string \<Rightarrow> string \<times> string" where
  "posix_split p =
     (let i = length p - length (takeWhile (\<lambda>c. c \<noteq> SLASH) (rev p));
          head = take i p;
          tail = drop i p
      in (if head \<noteq> [] \<and> head \<noteq> replicate (length head) SLASH
          then rev (dropWhile (\<lambda>c. c = SLASH) (rev head)) else head,
          tail))"

lemma posix_split_head_prefix: "prefix (fst (posix_split p)) p"
proof -
  have strip: "prefix (rev (dropWhile P (rev xs))) xs" for P and xs :: string
  proof -
    have "rev xs = takeWhile P (rev xs) @ dropWhile P (rev xs)" by simp
    then have "xs = rev (dropWhile P (rev xs)) @ rev (takeWhile P (rev xs))"
      by (metis rev_append rev_rev_ident)
    then show ?thesis by (metis prefixI)
  qed
  have tk: "prefix (take i p) p" for i by (rule take_is_prefix)
  have "prefix (rev (dropWhile (\<lambda>c. c = SLASH) (rev (take i p)))) p" for i
    using strip [of "\<lambda>c. c = SLASH" "take i p"] tk [of i] by (rule prefix_order.trans)
  then show ?thesis
    using tk by (simp add: posix_split_def Let_def)
qed

lemma posix_split_head_shorter:
  assumes "fst (posix_split p) \<noteq> p"
  shows "length (fst (posix_split p)) < length p"
proof -
  obtain zs where zs: "p = fst (posix_split p) @ zs"
    using posix_split_head_prefix [of p] by (auto simp: prefix_def)
  with assms have "zs \<noteq> []" by auto
  then have "length (fst (posix_split p)) < length (fst (posix_split p) @ zs)" by simp
  with zs show ?thesis by simp
qed

text \<open>
  The \<^verbatim>\<open>while True\<close> loop of \<^verbatim>\<open>split_other_path\<close>; \<^verbatim>\<open>allparts.insert(0, x)\<close> puts
  \<open>x\<close> in front.
\<close>

function split_other_loop :: "string \<Rightarrow> string list \<Rightarrow> string list" where
  "split_other_loop path allparts =
     (if fst (posix_split path) = path then fst (posix_split path) # allparts
      else if snd (posix_split path) = path then snd (posix_split path) # allparts
      else split_other_loop (fst (posix_split path)) (snd (posix_split path) # allparts))"
  by pat_completeness auto
termination
  by (relation "measure (\<lambda>(path, allparts). length path)")
     (auto intro: posix_split_head_shorter)

declare split_other_loop.simps [simp del]

definition split_other_path :: "string \<Rightarrow> string list" where
  "split_other_path path = split_other_loop path []"

definition split_path :: "string \<Rightarrow> string list" where
  "split_path path =
     (if detect_filepath_type path = Windows then split_windows_path path
      else split_other_path path)"

section \<open>update_fmp_project_location.py: db_path_to_user_path\<close>

text \<open>
  \<^verbatim>\<open>os.path.join\<close> of the standard library, POSIX version: a component that starts with a
  slash replaces what was joined so far; otherwise it is added, after a slash unless the
  path so far is empty or ends with one.
\<close>

definition posix_join_step :: "string \<Rightarrow> string \<Rightarrow> string" where
  "posix_join_step path b =
     (if starts_with b [SLASH] then b
      else if path = [] \<or> starts_with (rev path) [SLASH] then path @ b
      else path @ [SLASH] @ b)"

definition posix_join :: "string \<Rightarrow> string list \<Rightarrow> string" where
  "posix_join a p = foldl posix_join_step a p"

definition FILE_SERVER_LOCATION :: string where
  "FILE_SERVER_LOCATION = ''N:'' @ [BSL] @ ''PPDO'' @ [BSL] @ ''Records'' @ [BSL]"

definition db_path_to_user_path :: "string \<Rightarrow> string" where
  "db_path_to_user_path db_path =
     (case [FILE_SERVER_LOCATION] @ split_path db_path of
        a # p \<Rightarrow> posix_join a p)"

section \<open>ProjectChangingClerk (both files): the FileMaker server and _auto_relogin_fm\<close>

definition IDX_FIELD_NAME :: string where "IDX_FIELD_NAME = ''ID_Primary''"
definition PROJECT_NUMBER_FIELD :: string where "PROJECT_NUMBER_FIELD = ''ProjectNumber''"
definition PROJECT_LOCATION_FIELD :: string where "PROJECT_LOCATION_FIELD = ''FileServerLocation''"

text \<open>
  A record of the projects layout, with the fields the batch run reads. The field
  \<open>ProjectNumber\<close> is the value after \<^verbatim>\<open>astype(str)\<close>.
\<close>

record fm_record =
  recordId :: string
  ID_Primary :: string
  ProjectNumber :: string

type_synonym field_data = "(string \<times> string) list"

datatype request = Find field_data | EditRecord string field_data

text \<open>
  A call of a method of \<^verbatim>\<open>fmrest.Server\<close> returns a value or raises an exception;
  \<open>Fault e\<close> is an exception \<open>x\<close> with \<^verbatim>\<open>str(x)\<close> = \<open>e\<close>.
\<close>

datatype 'a outcome = Ok 'a | Fault string

text \<open>
  The remote server is any behaviour: what \<^verbatim>\<open>find\<close> and \<^verbatim>\<open>edit_record\<close> answer may
  depend on their arguments and on the number of requests the server has received before.
  \<^verbatim>\<open>login\<close> returns nothing or raises: \<open>fm_login srv n\<close> is \<open>None\<close> when the login made
  after \<open>n\<close> earlier logins of the wrapper succeeds, and \<open>Some e\<close> when it raises an
  exception with text \<open>e\<close>.
\<close>

record fm_server =
  fm_find :: "nat \<Rightarrow> field_data \<Rightarrow> fm_record list outcome"
  fm_edit_record :: "nat \<Rightarrow> string \<Rightarrow> field_data \<Rightarrow> bool outcome"
  fm_login :: "nat \<Rightarrow> string option"

text \<open>
  What the module does with a warning. \<^verbatim>\<open>change_project_pm.py\<close> starts with
  \<^verbatim>\<open>warnings.filterwarnings('ignore')\<close>: no warning is ever shown.
  \<^verbatim>\<open>update_fmp_project_location.py\<close> sets no filter, and a \<^verbatim>\<open>UserWarning\<close> then gets
  the action \<^verbatim>\<open>default\<close> of the standard library: it is shown the first time it is
  given from a line with a text, and not again.
\<close>

datatype warning_action = Ignore_all | Default_action

text \<open>
  The state of a clerk and of its process that the wrapper reads and changes: the action
  of the module on warnings, the number of calls of \<^verbatim>\<open>self.fm_server.login()\<close> the
  wrapper made, the messages given to \<^verbatim>\<open>warnings.warn\<close>, those of them that were shown,
  and the requests sent to the server, oldest first.
\<close>

record clerk =
  action :: warning_action
  relogins :: nat
  warned :: "string list"
  shown :: "string list"
  sent :: "request list"

text \<open>The clerk of \<^verbatim>\<open>update_fmp_project_location.py\<close>, and that of \<^verbatim>\<open>change_project_pm.py\<close>.\<close>

definition new_clerk :: clerk where
  "new_clerk = \<lparr>action = Default_action, relogins = 0, warned = [], shown = [], sent = []\<rparr>"


text \<open>\<^verbatim>\<open>warnings.warn(message)\<close>, from the one line of the wrapper that calls it.\<close>

definition warnings_warn :: "string \<Rightarrow> clerk \<Rightarrow> clerk" where
  "warnings_warn message c =
     c\<lparr>warned := warned c @ [message],
       shown :=
         (case action c of
            Ignore_all \<Rightarrow> shown c
          | Default_action \<Rightarrow>
              if message \<in> set (warned c) then shown c else shown c @ [message])\<rparr>"

text \<open>\<^verbatim>\<open>self.auto_login_attempts = 3\<close>, assigned in \<^verbatim>\<open>__init__\<close> and nowhere else.\<close>

definition auto_login_attempts :: nat where
  "auto_login_attempts = 3"

definition WARNING_401 :: string where
  "WARNING_401 = ''FileMaker Server returned error 401, No records match the request''"

text \<open>
  \<^verbatim>\<open>_auto_relogin_fm\<close>. \<open>Inl e\<close> is \<^verbatim>\<open>raise e\<close>, \<open>Inr None\<close> is \<^verbatim>\<open>return None\<close>,
  \<open>Inr (Some v)\<close> is the value of the server method. Every path through the body of the
  \<^verbatim>\<open>while True\<close> ends in \<^verbatim>\<open>return\<close> or \<^verbatim>\<open>raise\<close>: the \<^verbatim>\<open>try\<close> returns, and the
  handler ends with an \<^verbatim>\<open>if\<close> that returns and an \<^verbatim>\<open>else\<close> that raises. So the body runs
  once, with \<^verbatim>\<open>attempted\<close> going from 0 to 1 in the handler. \<open>login\<close> is
  \<^verbatim>\<open>self.fm_server.login\<close>; an exception it raises inside the handler leaves the wrapper.
  \<open>after_login\<close> is the rest of the handler, from \<^verbatim>\<open>if '401' in str(e)\<close>.
\<close>

definition after_login :: "string \<Rightarrow> clerk \<Rightarrow> (string + 'a option) \<times> clerk" where
  "after_login e c =
     (if str_in ''401'' e then (Inr None, warnings_warn WARNING_401 c) else (Inl e, c))"

definition auto_relogin_fm ::
  "(nat \<Rightarrow> string option) \<Rightarrow> request \<Rightarrow> (nat \<Rightarrow> 'a outcome) \<Rightarrow> clerk \<Rightarrow>
   (string + 'a option) \<times> clerk" where
  "auto_relogin_fm login req server_method c =
     (let attempted = (0::nat);
          c1 = c\<lparr>sent := sent c @ [req]\<rparr>
      in case server_method (length (sent c)) of
           Ok v \<Rightarrow> (Inr (Some v), c1)
         | Fault e \<Rightarrow>
             (let attempted = attempted + 1
              in if attempted \<ge> auto_login_attempts then (Inl e, c1)
                 else if str_in ''952'' e then
                   (case login (relogins c1) of
                      Some login_error \<Rightarrow> (Inl login_error, c1\<lparr>relogins := relogins c1 + 1\<rparr>)
                    | None \<Rightarrow> after_login e (c1\<lparr>relogins := relogins c1 + 1\<rparr>))
                 else after_login e c1))"

definition projects_queried_by_number ::
  "fm_server \<Rightarrow> string \<Rightarrow> clerk \<Rightarrow> (string + fm_record list option) \<times> clerk" where
  "projects_queried_by_number srv number c =
     (let project_number_query = [(PROJECT_NUMBER_FIELD, number)]
      in auto_relogin_fm (fm_login srv) (Find project_number_query)
           (\<lambda>k. fm_find srv k project_number_query) c)"

definition projects_queried_by_id ::
  "fm_server \<Rightarrow> string \<Rightarrow> clerk \<Rightarrow> (string + fm_record list option) \<times> clerk" where
  "projects_queried_by_id srv project_id c =
     (let project_id_query = [(IDX_FIELD_NAME, project_id)]
      in auto_relogin_fm (fm_login srv) (Find project_id_query)
           (\<lambda>k. fm_find srv k project_id_query) c)"

definition make_change_to_project_data ::
  "fm_server \<Rightarrow> string \<Rightarrow> field_data \<Rightarrow> clerk \<Rightarrow> (string + bool option) \<times> clerk" where
  "make_change_to_project_data srv project_record_id change_dict c =
     auto_relogin_fm (fm_login srv) (EditRecord project_record_id change_dict)
       (\<lambda>k. fm_edit_record srv k project_record_id change_dict) c"

section \<open>update_fmp_project_location.py: UpdateStatus and the batch loop\<close>

record UpdateStatus =
  project_locations_updated :: nat
  projects_not_in_fmp :: nat
  projects_not_in_db :: nat
  multiple_projects_in_fmp :: nat
  ids_not_found_in_fmp :: nat
  projects_modified :: "string list"

text \<open>\<^verbatim>\<open>UpdateStatus.__init__\<close>\<close>

definition UpdateStatus_init :: UpdateStatus where
  "UpdateStatus_init =
     \<lparr>project_locations_updated = 0, projects_not_in_fmp = 0, projects_not_in_db = 0,
      multiple_projects_in_fmp = 0, ids_not_found_in_fmp = 0, projects_modified = []\<rparr>"

text \<open>\<^verbatim>\<open>str(n)\<close> of a counter: its decimal digits.\<close>

fun str_nat :: "nat \<Rightarrow> string" where
  "str_nat n =
     (if n < 10 then [''0123456789'' ! n]
      else str_nat (n div 10) @ [''0123456789'' ! (n mod 10)])"

declare str_nat.simps [simp del]

text \<open>\<^verbatim>\<open>UpdateStatus.__str__\<close>\<close>

definition UpdateStatus_str :: "UpdateStatus \<Rightarrow> string" where
  "UpdateStatus_str self =
     ''Project Locations Updated: '' @ str_nat (project_locations_updated self) @ [NL] @
     ''Projects Not Found in FileMaker: '' @ str_nat (projects_not_in_fmp self) @ [NL] @
     ''Projects Not Found in Database: '' @ str_nat (projects_not_in_db self) @ [NL] @
     ''Multiple Projects Found in FileMaker: '' @ str_nat (multiple_projects_in_fmp self) @ [NL] @
     ''IDs Not Found in FileMaker: '' @ str_nat (ids_not_found_in_fmp self) @ [NL]"

text \<open>A row of the data frame read from the projects table of the archives database.\<close>

record source_row =
  number :: string
  file_server_location :: string

datatype level = INFO | WARNING | ERROR

text \<open>What the batch run changes: the clerk, the tally and the lines given to the logger.\<close>

record batch =
  clerk_of :: clerk
  status :: UpdateStatus
  logged :: "(level \<times> string) list"

text \<open>
  The matching step of the loop body: the column \<^verbatim>\<open>ProjectNumber\<close> of the found set is
  replaced by its stripped values, and the rows equal to \<^verbatim>\<open>proj_number\<close> are kept.
\<close>

definition match_rows :: "string \<Rightarrow> fm_record list \<Rightarrow> fm_record list" where
  "match_rows proj_number foundset =
     (let fmp_proj_num_df = map (\<lambda>r. r\<lparr>ProjectNumber := strip (ProjectNumber r)\<rparr>) foundset
      in filter (\<lambda>r. ProjectNumber r = proj_number) fmp_proj_num_df)"

text \<open>The three \<^verbatim>\<open>continue\<close> branches and the handler of the loop body.\<close>

definition skip_not_in_fmp :: "string \<Rightarrow> clerk \<Rightarrow> batch \<Rightarrow> batch" where
  "skip_not_in_fmp proj_number c b =
     b\<lparr>clerk_of := c,
       logged := logged b @ [(WARNING, ''Project '' @ proj_number @ '' not found in FileMaker.'')],
       status := (status b)\<lparr>projects_not_in_fmp := projects_not_in_fmp (status b) + 1\<rparr>\<rparr>"

definition skip_multiple :: "string \<Rightarrow> clerk \<Rightarrow> batch \<Rightarrow> batch" where
  "skip_multiple proj_number c b =
     b\<lparr>clerk_of := c,
       logged := logged b @
         [(WARNING, ''Multiple projects found in FileMaker for project number '' @ proj_number @ ''.'')],
       status := (status b)\<lparr>multiple_projects_in_fmp := multiple_projects_in_fmp (status b) + 1\<rparr>\<rparr>"

definition skip_id_not_found :: "string \<Rightarrow> string \<Rightarrow> clerk \<Rightarrow> batch \<Rightarrow> batch" where
  "skip_id_not_found proj_number proj_id c b =
     b\<lparr>clerk_of := c,
       logged := logged b @
         [(WARNING, ''Project '' @ proj_number @ '' not found in FileMaker using ID, '' @ proj_id @ ''.'')],
       status := (status b)\<lparr>ids_not_found_in_fmp := ids_not_found_in_fmp (status b) + 1\<rparr>\<rparr>"

definition row_failed :: "string \<Rightarrow> string \<Rightarrow> clerk \<Rightarrow> batch \<Rightarrow> batch" where
  "row_failed proj_number e c b =
     b\<lparr>clerk_of := c,
       logged := logged b @ [(ERROR, ''Error processing project '' @ proj_number @ '': '' @ e)]\<rparr>"

definition count_update :: "string \<Rightarrow> clerk \<Rightarrow> batch \<Rightarrow> batch" where
  "count_update proj_number c b =
     b\<lparr>clerk_of := c,
       status := (status b)
         \<lparr>project_locations_updated := project_locations_updated (status b) + 1,
          projects_modified := projects_modified (status b) @ [proj_number]\<rparr>\<rparr>"

text \<open>
  \<^verbatim>\<open>str(e)\<close> of the \<^verbatim>\<open>KeyError\<close> that reading the column \<^verbatim>\<open>ProjectNumber\<close> raises on the
  data frame of an empty found set, which has no column: the name of the column in single
  quotes.
\<close>

definition KeyError_ProjectNumber :: string where
  "KeyError_ProjectNumber = [CHR 0x27] @ PROJECT_NUMBER_FIELD @ [CHR 0x27]"

text \<open>
  The body of \<^verbatim>\<open>for idx, row in project_location_df.iterrows()\<close>. A found set is an
  object without \<^verbatim>\<open>__bool__\<close> or \<^verbatim>\<open>__len__\<close>, so \<^verbatim>\<open>not foundset\<close> holds for
  \<^verbatim>\<open>None\<close> only; an empty found set from the lookup by number goes on to the data frame
  and fails there, in the handler of the row. The result of \<^verbatim>\<open>edit_record\<close> is a boolean,
  and \<^verbatim>\<open>if updated\<close> fails on \<^verbatim>\<open>None\<close> and on \<^verbatim>\<open>False\<close>.
\<close>

definition process_row :: "fm_server \<Rightarrow> source_row \<Rightarrow> batch \<Rightarrow> batch" where
  "process_row srv row b =
     (let proj_number = number row;
          proj_db_location = file_server_location row
      in case projects_queried_by_number srv proj_number (clerk_of b) of
           (Inl e, c1) \<Rightarrow> row_failed proj_number e c1 b
         | (Inr None, c1) \<Rightarrow> skip_not_in_fmp proj_number c1 b
         | (Inr (Some fmp_proj_num_foundset), c1) \<Rightarrow>
             if fmp_proj_num_foundset = [] then row_failed proj_number KeyError_ProjectNumber c1 b
             else
             (case match_rows proj_number fmp_proj_num_foundset of
                [] \<Rightarrow> skip_not_in_fmp proj_number c1 b
              | [fmp_proj_num_row] \<Rightarrow>
                  (let proj_id = ID_Primary fmp_proj_num_row
                   in case projects_queried_by_id srv proj_id c1 of
                        (Inl e, c2) \<Rightarrow> row_failed proj_number e c2 b
                      | (Inr None, c2) \<Rightarrow> skip_id_not_found proj_number proj_id c2 b
                      | (Inr (Some fmp_proj_id_foundset), c2) \<Rightarrow>
                          if length fmp_proj_id_foundset > 1
                          then skip_id_not_found proj_number proj_id c2 b
                          else
                            (let user_location = db_path_to_user_path proj_db_location
                             in case fmp_proj_id_foundset of
                                  [] \<Rightarrow> b\<lparr>clerk_of := c2\<rparr>
                                | record # others \<Rightarrow>
                                    (let record_id = recordId record;
                                         change_dict = [(PROJECT_LOCATION_FIELD, user_location)]
                                     in case make_change_to_project_data srv record_id change_dict c2 of
                                          (Inl e, c3) \<Rightarrow> row_failed proj_number e c3 b
                                        | (Inr updated, c3) \<Rightarrow>
                                            if updated = Some True
                                            then count_update proj_number c3 b
                                            else b\<lparr>clerk_of := c3\<rparr>)))
              | fmp_proj_num_row # further \<Rightarrow> skip_multiple proj_number c1 b))"

text \<open>\<^verbatim>\<open>', '.join(map(str, status.projects_modified))\<close>\<close>

fun join_comma :: "string list \<Rightarrow> string" where
  "join_comma [] = []"
| "join_comma [x] = x"
| "join_comma (x # y # ys) = x @ '', '' @ join_comma (y # ys)"

text \<open>
  The main block: a new clerk, a new tally, the loop over the rows in their order, and
  the three lines of the summary.
\<close>

definition new_batch :: batch where
  "new_batch = \<lparr>clerk_of = new_clerk, status = UpdateStatus_init, logged = []\<rparr>"

definition run_rows :: "fm_server \<Rightarrow> source_row list \<Rightarrow> batch \<Rightarrow> batch" where
  "run_rows srv project_location_df b = foldl (\<lambda>b row. process_row srv row b) b project_location_df"

definition main_batch :: "fm_server \<Rightarrow> source_row list \<Rightarrow> batch" where
  "main_batch srv project_location_df =
     (let b = run_rows srv project_location_df new_batch
      in b\<lparr>logged := logged b @
           [(INFO, ''Update process completed. Status summary:''),
            (INFO, UpdateStatus_str (status b)),
            (INFO, ''Modified projects: '' @ join_comma (projects_modified (status b)))]\<rparr>)"

section \<open>change_project_pm.py: the notes of a manager change\<close>

text \<open>
  \<^verbatim>\<open>PmChangeService._generate_notes_str\<close>; \<open>datestamp\<close> is the value of
  \<^verbatim>\<open>datetime.now().strftime("%Y-%m-%d %H:%M:%S")\<close>. \<^verbatim>\<open>if old_pm_name\<close> fails on
  \<^verbatim>\<open>None\<close> and on the empty string.
\<close>

definition generate_notes_str :: "string option \<Rightarrow> string \<Rightarrow> string \<Rightarrow> string" where
  "generate_notes_str old_pm_name new_pm_name datestamp =
     (let change_str =
            (case old_pm_name of
               None \<Rightarrow> ''set to''
             | Some name \<Rightarrow> if name \<noteq> [] then ''changed from '' @ name @ '' to'' else ''set to'')
      in ''Project PM '' @ change_str @ '' '' @ new_pm_name @ '' on '' @ datestamp)"

text \<open>
  The value \<^verbatim>\<open>change_project_pm\<close> writes to the field \<^verbatim>\<open>Notes\<close>, from the notes the
  project has (\<^verbatim>\<open>if proj_notes\<close> fails on the empty string).
\<close>

definition new_notes :: "string \<Rightarrow> string option \<Rightarrow> string \<Rightarrow> string \<Rightarrow> string" where
  "new_notes proj_notes old_pm_name target_pm_name datestamp =
     (let note = generate_notes_str old_pm_name target_pm_name datestamp
      in if proj_notes \<noteq> [] then proj_notes @ [NL] @ note else note)"

section \<open>The matching step as the specification words it\<close>

text \<open>
  Following the specification, not the code: "Normalize business key as trimmed string in
  both source and remote result sets; filter remote results to exact (string-equal,
  whitespace-trimmed) matches." It differs from \<^const>\<open>match_rows\<close> in stripping the key
  of the source row too.
\<close>

definition match_rows_spec :: "string \<Rightarrow> fm_record list \<Rightarrow> fm_record list" where
  "match_rows_spec proj_number foundset =
     filter (\<lambda>r. ProjectNumber r = strip proj_number)
       (map (\<lambda>r. r\<lparr>ProjectNumber := strip (ProjectNumber r)\<rparr>) foundset)"

section \<open>Concrete inputs\<close>

definition fault_952 :: string where
  "fault_952 = ''FileMaker Server returned error 952, Invalid FileMaker Data API token (*)''"


definition fault_802 :: string where
  "fault_802 = ''FileMaker Server returned error 802, Unable to open file''"

definition fault_301 :: string where
  "fault_301 = ''FileMaker Server returned error 301, Record is in use by another user''"

definition project_1234 :: fm_record where
  "project_1234 = \<lparr>recordId = ''7'', ID_Primary = ''42'', ProjectNumber = ''1234''\<rparr>"

definition find_1234 :: request where
  "find_1234 = Find [(''ProjectNumber'', ''1234'')]"

definition row_1234 :: source_row where
  "row_1234 = \<lparr>number = ''1234'', file_server_location = ''archives/2024/site-a''\<rparr>"



text \<open>\<^verbatim>\<open>login\<close> that succeeds every time, and that is refused every time.\<close>

definition login_accepted :: "nat \<Rightarrow> string option" where
  "login_accepted n = None"


text \<open>A server that holds the one project 1234, and accepts or refuses every edit.\<close>

definition server_accepting :: fm_server where
  "server_accepting =
     \<lparr>fm_find = (\<lambda>k query. Ok [project_1234]), fm_edit_record = (\<lambda>k record_id change. Ok True),
      fm_login = (\<lambda>n. None)\<rparr>"

definition server_refusing :: fm_server where
  "server_refusing =
     \<lparr>fm_find = (\<lambda>k query. Ok [project_1234]),
      fm_edit_record = (\<lambda>k record_id change. Fault fault_301),
      fm_login = (\<lambda>n. None)\<rparr>"

definition path_abc :: string where
  "path_abc = ''C:'' @ [BSL] @ ''PPDO'' @ [BSL] @ ''Records'' @ [BSL] @ ''2024'' @ [BSL] @ ''ABC''"

definition path_double_prefix :: string where
  "path_double_prefix =
     ''N:'' @ [BSL] @ ''PPDO'' @ [BSL] @ ''Records'' @ [BSL] @ ''PPDO'' @ [BSL] @ ''Records'' @
     [BSL] @ ''2024'' @ [BSL] @ ''ABC''"

section \<open>Facts used by several theorems\<close>

lemma windows_chars_nonempty:
  "windows_chars parts curr_part cs = (ps, cp) \<Longrightarrow> parts \<noteq> [] \<Longrightarrow> ps \<noteq> []"
  by (induction parts curr_part cs rule: windows_chars.induct) (auto split: if_splits)

lemma split_windows_path_nonempty: "split_windows_path filepath \<noteq> []"
  by (auto simp: split_windows_path_def Let_def split: prod.splits if_splits
      dest: windows_chars_nonempty)

lemma split_other_loop_nonempty: "split_other_loop path allparts \<noteq> []"
proof (induction path allparts rule: split_other_loop.induct)
  case (1 path allparts)
  show ?case
    using "1.IH" by (subst split_other_loop.simps) simp
qed

lemma split_path_abc: "split_path path_abc = [''C:'', ''PPDO'', ''Records'', ''2024'', ''ABC'']"
  by (simp add: path_abc_def split_path_def detect_filepath_type_def dot_plus_end_def
      is_ascii_letter_def split_windows_path_def)

lemma db_path_to_user_path_abc:
  "db_path_to_user_path path_abc =
     ''N:'' @ [BSL] @ ''PPDO'' @ [BSL] @ ''Records'' @ [BSL] @ ''/C:/PPDO/Records/2024/ABC''"
  using split_path_abc
  by (simp add: db_path_to_user_path_def posix_join_def posix_join_step_def
      FILE_SERVER_LOCATION_def)

lemma split_path_drive_only: "split_path (''C:'' @ [BSL]) = [''C:'' @ [BSL]]"
proof -
  have "detect_filepath_type (''C:'' @ [BSL]) = Unknown"
    by (simp add: detect_filepath_type_def dot_plus_end_def)
  moreover have "split_other_loop (''C:'' @ [BSL]) [] = [''C:'' @ [BSL]]"
    by (subst split_other_loop.simps) (simp add: posix_split_def)
  ultimately show ?thesis
    by (simp add: split_path_def split_other_path_def)
qed

lemma process_row_not_in_db:
  "projects_not_in_db (status (process_row srv row b)) = projects_not_in_db (status b)"
  by (simp add: process_row_def Let_def skip_not_in_fmp_def skip_multiple_def
      skip_id_not_found_def row_failed_def count_update_def
      split: prod.splits sum.splits option.splits list.splits)

lemma run_rows_not_in_db:
  "projects_not_in_db (status (run_rows srv df b)) = projects_not_in_db (status b)"
  unfolding run_rows_def
  by (induction df arbitrary: b) (simp_all add: process_row_not_in_db)

lemma str_nat_0: "str_nat 0 = ''0''"
  by (simp add: str_nat.simps)

section \<open>The retry wrapper\<close>

text \<open>
  Claim C1. A session-expired fault (952 in its text) followed by an attempt that would
  succeed: the wrapper should log in again, retry and return the success. On the code the
  wrapper logs in once and then raises the fault; the server is asked once, although its
  second answer would have been the record.
\<close>

theorem C1_session_expired_raised_without_retry:
  "auto_relogin_fm login_accepted find_1234
     (\<lambda>k. if k = 0 then Fault fault_952 else Ok [project_1234]) new_clerk =
     (Inl fault_952, new_clerk\<lparr>relogins := 1, sent := [find_1234]\<rparr>)"
  by (simp add: auto_relogin_fm_def after_login_def login_accepted_def new_clerk_def
      auto_login_attempts_def fault_952_def)

text \<open>
  Claim C2, as stated: a fault that is neither session-expired nor no-match is retried up
  to three attempts and propagated only then. It fails: the fault of the first attempt is
  raised after one request, with the budget of three not used up.
\<close>

theorem C2_other_fault_counterexample:
  "fst (auto_relogin_fm login_accepted find_1234
          (\<lambda>k. if k = 0 then Fault fault_802 else Ok [project_1234]) new_clerk) = Inl fault_802 \<and>
   length (sent (snd (auto_relogin_fm login_accepted find_1234
          (\<lambda>k. if k = 0 then Fault fault_802 else Ok [project_1234]) new_clerk))) = 1 \<and>
   1 < auto_login_attempts"
  by (simp add: auto_relogin_fm_def after_login_def new_clerk_def auto_login_attempts_def
      fault_802_def)

text \<open>
  Claim C2, amended: a fault whose text contains neither 952 nor 401 is raised to the
  caller from the first failed attempt: one request sent, no login, no warning.
\<close>

theorem C2_other_fault_raised_at_once:
  assumes "server_method (length (sent c)) = Fault e"
    and "\<not> str_in ''952'' e"
    and "\<not> str_in ''401'' e"
  shows "auto_relogin_fm login req server_method c = (Inl e, c\<lparr>sent := sent c @ [req]\<rparr>)"
  using assms by (simp add: auto_relogin_fm_def after_login_def auto_login_attempts_def)

theorem C2_other_fault_raised_at_once_witness:
  "\<not> str_in ''952'' fault_802 \<and> \<not> str_in ''401'' fault_802 \<and>
   auto_relogin_fm login_accepted find_1234 (\<lambda>k. Fault fault_802 :: fm_record list outcome)
     new_clerk = (Inl fault_802, new_clerk\<lparr>sent := sent new_clerk @ [find_1234]\<rparr>)"
proof -
  have h2: "\<not> str_in ''952'' fault_802" by (simp add: fault_802_def)
  have h3: "\<not> str_in ''401'' fault_802" by (simp add: fault_802_def)
  show ?thesis
    using C2_other_fault_raised_at_once
      [of "\<lambda>k. Fault fault_802 :: fm_record list outcome" new_clerk fault_802 login_accepted
        find_1234] h2 h3
    by simp
qed




section \<open>The notes of a manager change\<close>

text \<open>
  Claim C3, as stated: the new audit line is put above the notes the project has, so the
  new notes start with it. It fails: the new line comes last.
\<close>

theorem C3_notes_prepended_counterexample:
  "new_notes ''Created 2019'' None ''Jane Doe'' ''2024-01-05 10:00:00'' =
     ''Created 2019'' @ [NL] @ ''Project PM set to Jane Doe on 2024-01-05 10:00:00'' \<and>
   \<not> prefix (generate_notes_str None ''Jane Doe'' ''2024-01-05 10:00:00'')
       (new_notes ''Created 2019'' None ''Jane Doe'' ''2024-01-05 10:00:00'')"
  by (simp add: new_notes_def generate_notes_str_def)

text \<open>
  Claim C3, amended: the new audit line is put below the notes the project has, after a
  newline when there are any; the new notes start with the old notes in full and end with
  the new line.
\<close>

theorem C3_notes_appended:
  "new_notes proj_notes old_pm_name target_pm_name datestamp =
     proj_notes @ (if proj_notes = [] then [] else [NL]) @
     generate_notes_str old_pm_name target_pm_name datestamp \<and>
   prefix proj_notes (new_notes proj_notes old_pm_name target_pm_name datestamp) \<and>
   suffix (generate_notes_str old_pm_name target_pm_name datestamp)
     (new_notes proj_notes old_pm_name target_pm_name datestamp)"
  by (simp add: new_notes_def suffix_def)

section \<open>The batch loop\<close>

text \<open>
  Claim C4, as stated: the key is stripped on both sides before the comparison. It fails
  for a source key with a space at its end: the specification's matching keeps project
  1234, the code's keeps nothing.
\<close>

theorem C4_source_key_trimmed_counterexample:
  "match_rows_spec ''1234 '' [project_1234] = [project_1234] \<and>
   match_rows ''1234 '' [project_1234] = []"
  by (simp add: match_rows_spec_def match_rows_def project_1234_def strip_def py_isspace_def)

text \<open>
  Claim C4, amended: the key of every remote row is stripped, the key of the source row is
  used as it was read, and the rows kept are those whose stripped key is equal to it.
\<close>

theorem C4_match_rows_strips_remote_only:
  "match_rows proj_number foundset =
     map (\<lambda>r. r\<lparr>ProjectNumber := strip (ProjectNumber r)\<rparr>)
       (filter (\<lambda>r. strip (ProjectNumber r) = proj_number) foundset)"
  by (simp add: match_rows_def filter_map o_def)

text \<open>
  Claim C5, as stated: one match by number, confirmed by one row in the lookup by id, gives
  one edit call, one more updated project and the key in the list of modified projects.
  It fails when the edit is refused: the edit call is made, nothing is counted.
\<close>

theorem C5_refused_edit_counterexample:
  "match_rows (number row_1234) [project_1234] = [project_1234] \<and>
   status (process_row server_refusing row_1234 new_batch) = UpdateStatus_init \<and>
   sent (clerk_of (process_row server_refusing row_1234 new_batch)) =
     [Find [(PROJECT_NUMBER_FIELD, ''1234'')],
      Find [(IDX_FIELD_NAME, ''42'')],
      EditRecord ''7'' [(PROJECT_LOCATION_FIELD, db_path_to_user_path ''archives/2024/site-a'')]]"
  by (simp add: process_row_def Let_def projects_queried_by_number_def
      projects_queried_by_id_def make_change_to_project_data_def auto_relogin_fm_def
      after_login_def auto_login_attempts_def row_failed_def match_rows_def strip_def
      py_isspace_def server_refusing_def row_1234_def project_1234_def new_batch_def
      new_clerk_def fault_301_def)

text \<open>
  Claim C5, amended: when the lookup by number returns a found set of which exactly one
  row has a stripped key equal to the key of the source row, the lookup by the id of that
  row returns exactly one record, and the edit of that record returns success, then the
  row makes exactly one edit call, adds 1 to the updated counter and puts the key at the
  end of the modified projects.
\<close>

theorem C5_single_match_updated:
  assumes "fm_find srv (length (sent (clerk_of b))) [(PROJECT_NUMBER_FIELD, number row)] =
             Ok foundset"
    and "match_rows (number row) foundset = [m]"
    and "fm_find srv (length (sent (clerk_of b)) + 1) [(IDX_FIELD_NAME, ID_Primary m)] = Ok [r]"
    and "fm_edit_record srv (length (sent (clerk_of b)) + 2) (recordId r)
           [(PROJECT_LOCATION_FIELD, db_path_to_user_path (file_server_location row))] = Ok True"
  shows "status (process_row srv row b) =
           (status b)\<lparr>project_locations_updated := project_locations_updated (status b) + 1,
                      projects_modified := projects_modified (status b) @ [number row]\<rparr> \<and>
         sent (clerk_of (process_row srv row b)) =
           sent (clerk_of b) @
             [Find [(PROJECT_NUMBER_FIELD, number row)],
              Find [(IDX_FIELD_NAME, ID_Primary m)],
              EditRecord (recordId r)
                [(PROJECT_LOCATION_FIELD, db_path_to_user_path (file_server_location row))]]"
proof -
  from assms(2) have nonempty: "foundset \<noteq> []"
    by (auto simp: match_rows_def)
  from assms nonempty show ?thesis
    by (simp add: process_row_def Let_def projects_queried_by_number_def
        projects_queried_by_id_def make_change_to_project_data_def auto_relogin_fm_def
        count_update_def)
qed

theorem C5_single_match_updated_witness:
  "project_locations_updated (status (process_row server_accepting row_1234 new_batch)) = 1 \<and>
   projects_modified (status (process_row server_accepting row_1234 new_batch)) = [''1234''] \<and>
   sent (clerk_of (process_row server_accepting row_1234 new_batch)) =
     [Find [(PROJECT_NUMBER_FIELD, ''1234'')],
      Find [(IDX_FIELD_NAME, ''42'')],
      EditRecord ''7'' [(PROJECT_LOCATION_FIELD, db_path_to_user_path ''archives/2024/site-a'')]]"
proof -
  have h1: "fm_find server_accepting (length (sent (clerk_of new_batch)))
              [(PROJECT_NUMBER_FIELD, number row_1234)] = Ok [project_1234]"
    by (simp add: server_accepting_def)
  have h2: "match_rows (number row_1234) [project_1234] = [project_1234]"
    by (simp add: match_rows_def row_1234_def project_1234_def strip_def py_isspace_def)
  have h3: "fm_find server_accepting (length (sent (clerk_of new_batch)) + 1)
              [(IDX_FIELD_NAME, ID_Primary project_1234)] = Ok [project_1234]"
    by (simp add: server_accepting_def)
  have h4: "fm_edit_record server_accepting (length (sent (clerk_of new_batch)) + 2)
              (recordId project_1234)
              [(PROJECT_LOCATION_FIELD, db_path_to_user_path (file_server_location row_1234))] =
              Ok True"
    by (simp add: server_accepting_def)
  show ?thesis
    using C5_single_match_updated [OF h1 h2 h3 h4]
    by (simp add: new_batch_def new_clerk_def UpdateStatus_init_def row_1234_def
        project_1234_def)
qed

text \<open>
  Claim C9. The counter \<^verbatim>\<open>projects_not_in_db\<close> starts at 0, no row of a batch run changes
  it, so it is 0 after every run, whatever the server answers; and the summary of the run
  has the line that shows it, third of five.
\<close>

theorem C9_projects_not_in_db_stays_zero:
  "projects_not_in_db UpdateStatus_init = 0 \<and>
   projects_not_in_db (status (process_row srv row b)) = projects_not_in_db (status b) \<and>
   projects_not_in_db (status (main_batch srv df)) = 0 \<and>
   UpdateStatus_str (status (main_batch srv df)) =
     ''Project Locations Updated: '' @
       str_nat (project_locations_updated (status (main_batch srv df))) @ [NL] @
     ''Projects Not Found in FileMaker: '' @
       str_nat (projects_not_in_fmp (status (main_batch srv df))) @ [NL] @
     ''Projects Not Found in Database: 0'' @ [NL] @
     ''Multiple Projects Found in FileMaker: '' @
       str_nat (multiple_projects_in_fmp (status (main_batch srv df))) @ [NL] @
     ''IDs Not Found in FileMaker: '' @
       str_nat (ids_not_found_in_fmp (status (main_batch srv df))) @ [NL]"
proof -
  have init: "projects_not_in_db UpdateStatus_init = 0"
    by (simp add: UpdateStatus_init_def)
  have "projects_not_in_db (status (main_batch srv df)) = projects_not_in_db (status new_batch)"
    by (simp add: main_batch_def Let_def run_rows_not_in_db)
  then have zero: "projects_not_in_db (status (main_batch srv df)) = 0"
    by (simp add: new_batch_def init)
  show ?thesis
    by (simp add: init zero process_row_not_in_db UpdateStatus_str_def str_nat_0)
qed

section \<open>The path functions\<close>

text \<open>
  Claim C7, as stated: the path \<^verbatim>\<open>C:\PPDO\Records\2024\ABC\<close> is re-rooted to
  \<^verbatim>\<open>N:\PPDO\Records\PPDO\Records\2024\ABC\<close>. It fails: the result is another string, and
  it keeps the drive \<^verbatim>\<open>C:\<close> as a component, which the stated path does not have.
\<close>

theorem C7_double_prefix_counterexample:
  "db_path_to_user_path path_abc \<noteq> path_double_prefix \<and>
   str_in ''C:'' (db_path_to_user_path path_abc) \<and>
   \<not> str_in ''C:'' path_double_prefix"
  using db_path_to_user_path_abc by (simp add: path_double_prefix_def)

text \<open>
  Claim C7, amended: the path \<^verbatim>\<open>C:\PPDO\Records\2024\ABC\<close> splits into the segments
  \<^verbatim>\<open>C:\<close>, \<^verbatim>\<open>PPDO\<close>, \<^verbatim>\<open>Records\<close>, \<^verbatim>\<open>2024\<close>, \<^verbatim>\<open>ABC\<close>, and joining them to the mount
  prefix on a POSIX host keeps every segment, the drive included:
  \<^verbatim>\<open>N:\PPDO\Records\/C:/PPDO/Records/2024/ABC\<close>.
\<close>

theorem C7_segments_joined_under_prefix:
  "split_path path_abc = [''C:'', ''PPDO'', ''Records'', ''2024'', ''ABC''] \<and>
   db_path_to_user_path path_abc = FILE_SERVER_LOCATION @ ''/C:/PPDO/Records/2024/ABC''"
  using split_path_abc db_path_to_user_path_abc by (simp add: FILE_SERVER_LOCATION_def)

text \<open>
  Claim C8, as stated: the input \<^verbatim>\<open>C:\<close> followed by a backslash gives one segment, the
  drive token \<^verbatim>\<open>C:\<close>. It fails: the segment is not the drive token.
\<close>

theorem C8_drive_token_counterexample:
  "split_path (''C:'' @ [BSL]) \<noteq> [''C:'']"
  using split_path_drive_only by simp

text \<open>
  Claim C8, amended: the input \<^verbatim>\<open>C:\<close> followed by a backslash is not a Windows path for
  \<^verbatim>\<open>detect_filepath_type\<close> (the pattern wants a character after the backslash), and
  \<^verbatim>\<open>split_path\<close> returns exactly one segment, the input itself with its backslash.
\<close>

theorem C8_drive_only_one_segment:
  "detect_filepath_type (''C:'' @ [BSL]) = Unknown \<and>
   split_path (''C:'' @ [BSL]) = [''C:'' @ [BSL]] \<and>
   length (split_path (''C:'' @ [BSL])) = 1"
  using split_path_drive_only by (simp add: detect_filepath_type_def dot_plus_end_def)

text \<open>
  Claim C10. \<^verbatim>\<open>split_path\<close> is total: the loop of \<^verbatim>\<open>split_other_path\<close> terminates on
  every string (the termination proof of \<^const>\<open>split_other_loop\<close>: the path gets
  shorter), and each of the two splitters returns at least one segment.
\<close>

theorem C10_split_path_total:
  "split_path path \<noteq> [] \<and> split_windows_path path \<noteq> [] \<and> split_other_path path \<noteq> []"
  by (simp add: split_path_def split_other_path_def split_windows_path_nonempty
      split_other_loop_nonempty)

end
